theory Spec2Isabelle
  imports Complex_Main "HOL-Library.Char_ord" "HOL-Library.List_Lexorder"
begin

section \<open>Data model of \<open>burnett/spectral_clustering.py\<close>\<close>

text \<open>
  The embedding follows the class \<open>ProteinStuctureEmbeddings\<close> method by method.
  Python exceptions are values of \<open>error\<close>; a method that can raise returns a sum,
  \<open>Inl\<close> carrying the exception. Strings are \<open>char list\<close> (identifiers are ASCII), ordered
  by code point and then lexicographically, which is the order of Python's \<open>sorted\<close> and of
  the sorted labels of a pandas index.
\<close>

datatype error =
  NameError | TypeError | KeyError | ValueError | IndexError | AttributeError
  | FileNotFoundError

text \<open>
  A pandas frame whose cells are strings (a mapping file after \<open>astype(str)\<close>): the columns
  in order, each a name and its cells.
\<close>

type_synonym table = "(string \<times> string list) list"

text \<open>\<open>df[name]\<close>: the column, or KeyError.\<close>

definition getitem :: "table \<Rightarrow> string \<Rightarrow> error + string list" where
  "getitem df name = (case map_of df name of None \<Rightarrow> Inl KeyError | Some col \<Rightarrow> Inr col)"

text \<open>\<open>df.name\<close>: the column, or AttributeError.\<close>

definition getattr_column :: "table \<Rightarrow> string \<Rightarrow> error + string list" where
  "getattr_column df name =
     (case map_of df name of None \<Rightarrow> Inl AttributeError | Some col \<Rightarrow> Inr col)"

text \<open>\<open>df[name] = col\<close>: replaces the column in place, or appends a new last column.\<close>

fun setitem :: "table \<Rightarrow> string \<Rightarrow> string list \<Rightarrow> table" where
  "setitem [] name col = [(name, col)]"
| "setitem ((k, v) # df) name col =
     (if k = name then (name, col) # df else (k, v) # setitem df name col)"

text \<open>
  \<open>s.split(sep)[0]\<close> for a one-character separator, which is what
  \<open>Series.str.split(sep, expand=True)[0]\<close> holds in each row: the text before the first
  occurrence of \<open>sep\<close>, the whole string when there is none.
\<close>

definition split_first :: "char \<Rightarrow> string \<Rightarrow> string" where
  "split_first sep s = takeWhile (\<lambda>c. c \<noteq> sep) s"

text \<open>\<open>str.lower\<close> on ASCII text: the letters A to Z move to a to z, all else stays.\<close>

definition lower_char :: "char \<Rightarrow> char" where
  "lower_char c =
     (if CHR ''A'' \<le> c \<and> c \<le> CHR ''Z'' then char_of (of_char c + (32::nat)) else c)"

definition lower :: "string \<Rightarrow> string" where
  "lower s = map lower_char s"

text \<open>
  A row of the alignment file after lines 92 to 95: two chain identifiers and the two
  directional TM-scores as float64. \<open>None\<close> is NaN; every other float64 is modelled as a
  real, which is exact here because the code only compares scores and never computes
  with them.
\<close>

record arow =
  PDBchain1 :: string
  PDBchain2 :: string
  TM1 :: "real option"
  TM2 :: "real option"

text \<open>
  A pandas frame of floats with labelled axes: the row labels, the column labels, and
  the cells. A cell that maps to \<open>None\<close> is NaN.
\<close>

record frame =
  index :: "string list"
  columns :: "string list"
  vals :: "string \<times> string \<rightharpoonup> real"

text \<open>\<open>frame.to_numpy()\<close>: the cells row by row, in label order.\<close>

definition to_numpy :: "frame \<Rightarrow> real option list list" where
  "to_numpy M = map (\<lambda>i. map (\<lambda>j. vals M (i, j)) (columns M)) (index M)"

text \<open>
  The result of \<open>SpectralClustering(...).fit(X)\<close>, with the attributes the code reads;
  \<open>fit_labels\<close> and \<open>fit_affinity_matrix\<close> stand for the attributes \<^verbatim>\<open>labels_\<close> and
  \<^verbatim>\<open>affinity_matrix_\<close>.
\<close>

record clustering =
  fit_labels :: "int list"
  fit_affinity_matrix :: "real list list"
  n_clusters :: int
  eigen_solver :: "string option"
  eigen_tol :: "real option"

text \<open>
  The scikit-learn routines the methods call. They are outside the repository, so the
  model takes them as parameters: each either raises or returns.
\<close>

record sklearn =
  SpectralClustering_fit :: "int \<Rightarrow> real option list list \<Rightarrow> error + clustering"
  spectral_embedding ::
    "real list list \<Rightarrow> int \<Rightarrow> string option \<Rightarrow> real option \<Rightarrow> bool \<Rightarrow> error + real list list"
  silhouette_score :: "frame option \<Rightarrow> int list option \<Rightarrow> error + real"
  davies_bouldin_score :: "frame option \<Rightarrow> int list option \<Rightarrow> error + real"

text \<open>The files on disk, already parsed by \<open>pd.read_csv\<close>: mapping files and alignment files.\<close>

record files =
  mapping_files :: "string \<rightharpoonup> table"
  alignment_files :: "string \<rightharpoonup> arow list"

text \<open>
  The module namespace. Four names that the methods load are neither locals nor
  attributes of \<open>self\<close>: \<open>read_mapping\<close> (line 78), \<open>species_name\<close> (line 109),
  \<open>mapping\<close> (lines 110 and 111) and \<open>protein_cluster\<close> (line 134). Python looks such a
  name up in the module's globals and raises NameError when it is unbound. A field is
  \<open>None\<close> when the name is unbound.
\<close>

record globals =
  g_read_mapping :: "(string option \<Rightarrow> string \<Rightarrow> error + table) option"
  g_species_name :: "string option"
  g_mapping :: "table option"
  g_protein_cluster :: "(string \<times> int) list option"

text \<open>
  The module as written binds, at top level, only \<open>sys\<close>, \<open>os\<close>, \<open>importlib\<close>,
  \<open>argparse\<close>, \<open>Optional\<close>, \<open>np\<close>, \<open>pd\<close>, \<open>SpectralClustering\<close>, \<open>spectral_embedding\<close>,
  \<open>get_module\<close>, \<open>saturn_model_path\<close>, \<open>saturn_model_module\<close> and the class itself; the
  script part binds \<open>parser\<close>, \<open>args\<close>, \<open>output_dir\<close> and \<open>fn\<close> before its first call of an
  unbound name stops it. None of the four names is among them, and none is a builtin.
\<close>

definition module_globals :: globals where
  "module_globals =
     \<lparr>g_read_mapping = None, g_species_name = None, g_mapping = None,
      g_protein_cluster = None\<rparr>"

definition load_global :: "'v option \<Rightarrow> error + 'v" where
  "load_global binding = (case binding of None \<Rightarrow> Inl NameError | Some v \<Rightarrow> Inr v)"

text \<open>The attributes of \<open>self\<close>, and \<open>__init__\<close> (lines 37 to 52).\<close>

record pse =
  total_gene_names :: "string list"
  species_gene_index :: "string \<rightharpoonup> nat \<times> nat"
  species_mapping :: "string \<rightharpoonup> table"
  species_order :: "string list"
  map_dir :: "string option"
  pid_mappings :: "string \<rightharpoonup> table"
  alignment_fn :: string
  simi_matrix_fn :: string
  simi_matrix :: "frame option"
  labels :: "int list option"
  structure_embeddings :: "real list list option"
  protein_cluster :: "(string \<times> int) list option"

definition init :: "string list \<Rightarrow> string \<Rightarrow> string option \<Rightarrow> pse" where
  "init order fn dir =
     \<lparr>total_gene_names = [], species_gene_index = Map.empty, species_mapping = Map.empty,
      species_order = order, map_dir = dir, pid_mappings = Map.empty, alignment_fn = fn,
      simi_matrix_fn = [], simi_matrix = None, labels = None, structure_embeddings = None,
      protein_cluster = None\<rparr>"

section \<open>Similarity matrix builder (\<open>get_simi_matrix\<close>, lines 85 to 115)\<close>

text \<open>
  Line 97, \<open>df[['TM1', 'TM2']].min(axis=1)\<close>: the row minimum, which skips NaN, and is NaN
  only when both scores are.
\<close>

definition small_TM :: "arow \<Rightarrow> real option" where
  "small_TM r =
     (case (TM1 r, TM2 r) of
        (Some a, Some b) \<Rightarrow> Some (min a b)
      | (Some a, None) \<Rightarrow> Some a
      | (None, Some b) \<Rightarrow> Some b
      | (None, None) \<Rightarrow> None)"

text \<open>
  Lines 93 to 98: the second chain loses everything from its first dot on, and the frame
  keeps the two chains and the smaller score. A file without rows is taken to raise
  KeyError at line 93, the split of an empty column giving a frame without a column
  \<open>0\<close>; no statement below rests on that case.
\<close>

definition alignment_table :: "arow list \<Rightarrow> error + (string \<times> string \<times> real option) list" where
  "alignment_table rows =
     (if rows = [] then Inl KeyError
      else Inr (map (\<lambda>r. (PDBchain1 r, split_first CHR ''.'' (PDBchain2 r), small_TM r)) rows))"

text \<open>
  Line 101, \<open>df.pivot(index, columns, values)\<close>: ValueError when a pair (index, column)
  occurs twice; otherwise one row per first chain and one column per second chain, both
  sorted, the cell of a pair holding its value and every other cell NaN.
\<close>

definition pivot :: "(string \<times> string \<times> real option) list \<Rightarrow> error + frame" where
  "pivot df =
     (if \<not> distinct (map (\<lambda>(i, c, v). (i, c)) df) then Inl ValueError
      else Inr \<lparr>index = sort (remdups (map (\<lambda>(i, c, v). i) df)),
                columns = sort (remdups (map (\<lambda>(i, c, v). c) df)),
                vals = (\<lambda>k. case map_of (map (\<lambda>(i, c, v). ((i, c), v)) df) k of
                              None \<Rightarrow> None | Some v \<Rightarrow> v)\<rparr>)"

text \<open>\<open>frame.T\<close>.\<close>

definition T :: "frame \<Rightarrow> frame" where
  "T M = \<lparr>index = columns M, columns = index M, vals = (\<lambda>(i, j). vals M (j, i))\<rparr>"

text \<open>
  \<open>A.combine_first(B)\<close>: both axes become the sorted union of the labels; a cell keeps
  the value of \<open>A\<close> unless that is NaN or absent, and then takes the value of \<open>B\<close>.
\<close>

definition combine_first :: "frame \<Rightarrow> frame \<Rightarrow> frame" where
  "combine_first A B =
     \<lparr>index = sort (remdups (index A @ index B)),
      columns = sort (remdups (columns A @ columns B)),
      vals = (\<lambda>k. case vals A k of Some v \<Rightarrow> Some v | None \<Rightarrow> vals B k)\<rparr>"

text \<open>\<open>frame.fillna(v)\<close>: every NaN cell of the frame becomes \<open>v\<close>.\<close>

definition fillna :: "frame \<Rightarrow> real \<Rightarrow> frame" where
  "fillna M v =
     M\<lparr>vals := (\<lambda>(i, j). if i \<in> set (index M) \<and> j \<in> set (columns M)
                          then Some (case vals M (i, j) of None \<Rightarrow> v | Some x \<Rightarrow> x)
                          else None)\<rparr>"

text \<open>Lines 93 to 104: the value of the local \<open>simi_matrix\<close> when line 104 is done.\<close>

definition build_simi_matrix :: "arow list \<Rightarrow> error + frame" where
  "build_simi_matrix rows =
     (case alignment_table rows of
        Inl e \<Rightarrow> Inl e
      | Inr df \<Rightarrow>
          (case pivot df of
             Inl e \<Rightarrow> Inl e
           | Inr simi \<Rightarrow> Inr (fillna (combine_first simi (T simi)) 1)))"

text \<open>
  Line 109, \<open>if self.pid_mappings[species_name]:\<close>. The name \<open>species_name\<close> is loaded
  from the globals (NameError when unbound); the dictionary lookup raises KeyError for an
  absent key; and the truth value of the frame found raises ValueError, as the truth value
  of every pandas frame does. No path leaves this line normally.
\<close>

definition relabel_test :: "globals \<Rightarrow> pse \<Rightarrow> error + bool" where
  "relabel_test G self =
     (case load_global (g_species_name G) of
        Inl e \<Rightarrow> Inl e
      | Inr name \<Rightarrow>
          (case pid_mappings self name of
             None \<Rightarrow> Inl KeyError
           | Some df \<Rightarrow> Inl ValueError))"

text \<open>
  Lines 110 to 112, \<open>simi_matrix.rename(columns=d, index=d, inplace=True)\<close> with
  \<open>d = dict(zip(mapping.pid, mapping.symbol))\<close>: the name \<open>mapping\<close> is loaded from
  the globals, and each label with an entry in \<open>d\<close> is replaced (the last entry of a pid
  wins, as in \<open>dict\<close>); a cell is found under the new labels of its row and column.
\<close>

definition rename_label :: "(string \<times> string) list \<Rightarrow> string \<Rightarrow> string" where
  "rename_label d l = (case map_of (rev d) l of None \<Rightarrow> l | Some s \<Rightarrow> s)"

definition rename :: "frame \<Rightarrow> (string \<times> string) list \<Rightarrow> frame" where
  "rename M d =
     \<lparr>index = map (rename_label d) (index M),
      columns = map (rename_label d) (columns M),
      vals = (\<lambda>(i, j). case find (\<lambda>(a, b). rename_label d a = i \<and> rename_label d b = j)
                                  (List.product (index M) (columns M)) of
                          None \<Rightarrow> None | Some k \<Rightarrow> vals M k)\<rparr>"

definition relabel :: "globals \<Rightarrow> frame \<Rightarrow> error + frame" where
  "relabel G M =
     (case load_global (g_mapping G) of
        Inl e \<Rightarrow> Inl e
      | Inr mapping \<Rightarrow>
          (case getattr_column mapping ''pid'' of
             Inl e \<Rightarrow> Inl e
           | Inr pid \<Rightarrow>
               (case getattr_column mapping ''symbol'' of
                  Inl e \<Rightarrow> Inl e
                | Inr symbol \<Rightarrow> Inr (rename M (zip pid symbol)))))"

text \<open>
  The whole method. On success it would store the matrix in \<open>self.simi_matrix\<close> and
  return it (lines 113 to 115).
\<close>

definition get_simi_matrix :: "globals \<Rightarrow> files \<Rightarrow> pse \<Rightarrow> error + frame \<times> pse" where
  "get_simi_matrix G fs self =
     (case alignment_files fs (alignment_fn self) of
        None \<Rightarrow> Inl FileNotFoundError
      | Some rows \<Rightarrow>
          (case build_simi_matrix rows of
             Inl e \<Rightarrow> Inl e
           | Inr simi \<Rightarrow>
               (case relabel_test G self of
                  Inl e \<Rightarrow> Inl e
                | Inr c \<Rightarrow>
                    (case (if c then relabel G simi else Inr simi) of
                       Inl e \<Rightarrow> Inl e
                     | Inr simi' \<Rightarrow> Inr (simi', self\<lparr>simi_matrix := Some simi'\<rparr>)))))"

section \<open>Identifier mapper (\<open>read_mapping\<close>, lines 54 to 68)\<close>

text \<open>\<open>os.path.join(a, b)\<close> on a POSIX system, for two components.\<close>

definition path_join :: "string \<Rightarrow> string \<Rightarrow> string" where
  "path_join a b =
     (if b \<noteq> [] \<and> hd b = CHR ''/'' then b
      else if a = [] \<or> last a = CHR ''/'' then a @ b
      else a @ ''/'' @ b)"

text \<open>
  The method. \<open>os.path.join\<close> raises TypeError when \<open>map_dir\<close> is \<open>None\<close>; a missing file
  raises FileNotFoundError; a missing column raises KeyError. A table without rows is
  taken to raise KeyError at line 64, as for the alignment file; no statement below rests
  on that case. The table is cached in \<open>self.pid_mappings\<close> and returned.
\<close>

definition read_mapping :: "files \<Rightarrow> pse \<Rightarrow> string \<Rightarrow> error + table \<times> pse" where
  "read_mapping fs self species_name =
     (case map_dir self of
        None \<Rightarrow> Inl TypeError
      | Some dir \<Rightarrow>
          (case mapping_files fs (path_join dir (species_name @ ''_pid_protein_name.csv'')) of
             None \<Rightarrow> Inl FileNotFoundError
           | Some mapping \<Rightarrow>
               (case getitem mapping ''symbol'' of
                  Inl e \<Rightarrow> Inl e
                | Inr symbol \<Rightarrow>
                    if symbol = [] then Inl KeyError
                    else
                      let gene_name = map (split_first CHR '' '') symbol;
                          mapping1 = setitem mapping ''gene_name'' gene_name;
                          mapping2 = setitem mapping1 ''symbol''
                                       (map (\<lambda>g. g @ ''_'' @ species_name) gene_name)
                      in (case getitem mapping2 ''pid'' of
                            Inl e \<Rightarrow> Inl e
                          | Inr pid \<Rightarrow>
                              let mapping3 = setitem mapping2 ''pid'' (map lower pid)
                              in Inr (mapping3,
                                      self\<lparr>pid_mappings :=
                                             (pid_mappings self)(species_name \<mapsto> mapping3)\<rparr>)))))"

section \<open>Gene index builder (\<open>get_species_gene_index\<close>, lines 70 to 83)\<close>

text \<open>
  The loop of lines 77 to 82 over the sorted species, with the running offset \<open>n\<close>. The
  callee of line 78 is the global name \<open>read_mapping\<close>, called with \<open>self.map_dir\<close> and
  the species. Line 82 is \<open>n += n + len(gene_names)\<close>. An exception leaves \<open>self\<close> as
  the iterations before it made it.
\<close>

fun gene_index_loop :: "globals \<Rightarrow> string list \<Rightarrow> pse \<Rightarrow> nat \<Rightarrow> (error + unit) \<times> pse" where
  "gene_index_loop G [] self n = (Inr (), self)"
| "gene_index_loop G (species # rest) self n =
     (case load_global (g_read_mapping G) of
        Inl e \<Rightarrow> (Inl e, self)
      | Inr callee \<Rightarrow>
          (case callee (map_dir self) species of
             Inl e \<Rightarrow> (Inl e, self)
           | Inr mapping_df \<Rightarrow>
               (case getattr_column mapping_df ''gene_name'' of
                  Inl e \<Rightarrow> (Inl e, self)
                | Inr gene_names \<Rightarrow>
                    gene_index_loop G rest
                      (self\<lparr>total_gene_names := total_gene_names self @ gene_names,
                            species_gene_index :=
                              (species_gene_index self)
                                (species \<mapsto> (n, n + length gene_names))\<rparr>)
                      (n + (n + length gene_names)))))"

definition get_species_gene_index ::
  "globals \<Rightarrow> pse \<Rightarrow> (error + string list \<times> (string \<rightharpoonup> nat \<times> nat)) \<times> pse" where
  "get_species_gene_index G self =
     (case gene_index_loop G (sort (species_order self)) self 0 of
        (Inl e, self') \<Rightarrow> (Inl e, self')
      | (Inr u, self') \<Rightarrow> (Inr (total_gene_names self', species_gene_index self'), self'))"

section \<open>Clustering and embedding (\<open>clustering_embedding\<close>, lines 117 to 147)\<close>

text \<open>
  Line 125 reads \<open>self.simi_matrix.index\<close> (AttributeError on \<open>None\<close>). Line 127 fits
  the clustering on the matrix as an array. Lines 128 to 133 store the labels and the
  frame of symbols and labels in \<open>self\<close>; a frame from two columns of different lengths
  raises ValueError. Line 134 loads the global name \<open>protein_cluster\<close>. Lines 137 to 144
  call \<open>spectral_embedding\<close> on the clustering's own affinity matrix, with
  \<open>n_components\<close> the clustering's \<open>n_clusters\<close> and \<open>drop_first=False\<close>; line 146
  stores the result. The two files written (lines 134 and 145) are not part of the model.
  The second component is \<open>self\<close> as the method leaves it, also when it raises.
\<close>

definition clustering_embedding ::
  "globals \<Rightarrow> sklearn \<Rightarrow> pse \<Rightarrow> string \<Rightarrow> int \<Rightarrow> (error + clustering \<times> real list list) \<times> pse" where
  "clustering_embedding G lib self output_dir k =
     (case simi_matrix self of
        None \<Rightarrow> (Inl AttributeError, self)
      | Some simi \<Rightarrow>
          let proteins_order = index simi in
          (case SpectralClustering_fit lib k (to_numpy simi) of
             Inl e \<Rightarrow> (Inl e, self)
           | Inr c \<Rightarrow>
               let self1 = self\<lparr>labels := Some (fit_labels c)\<rparr> in
               if length proteins_order \<noteq> length (fit_labels c) then (Inl ValueError, self1)
               else
                 let self2 = self1\<lparr>protein_cluster := Some (zip proteins_order (fit_labels c))\<rparr> in
                 (case load_global (g_protein_cluster G) of
                    Inl e \<Rightarrow> (Inl e, self2)
                  | Inr written \<Rightarrow>
                      (case spectral_embedding lib (fit_affinity_matrix c) (n_clusters c)
                              (eigen_solver c) (eigen_tol c) False of
                         Inl e \<Rightarrow> (Inl e, self2)
                       | Inr maps \<Rightarrow>
                           (Inr (c, maps), self2\<lparr>structure_embeddings := Some maps\<rparr>)))))"

section \<open>Species slicer (\<open>get_species_structure_embeddings\<close>, lines 149 to 153)\<close>

text \<open>
  The argument of the method is used as a subscript of the list
  \<open>self.total_gene_names\<close>. A list accepts an integer (negative ones count from the end,
  IndexError out of range) and raises TypeError for a string.
\<close>

datatype subscript = StrKey string | IntKey int

definition list_getitem :: "'a list \<Rightarrow> subscript \<Rightarrow> error + 'a" where
  "list_getitem xs key =
     (case key of
        StrKey s \<Rightarrow> Inl TypeError
      | IntKey i \<Rightarrow>
          if 0 \<le> i \<and> i < int (length xs) then Inr (xs ! nat i)
          else if i < 0 \<and> - int (length xs) \<le> i then Inr (xs ! nat (int (length xs) + i))
          else Inl IndexError)"

text \<open>
  Line 150 subscripts the list. When that returns, \<open>species_genes\<close> is one gene name, a
  string; line 151 reads \<open>self.protein_cluster.isin\<close> (AttributeError on \<open>None\<close>) and
  \<open>isin\<close> raises TypeError for a string, which is not list-like.
\<close>

definition get_species_structure_embeddings :: "pse \<Rightarrow> subscript \<Rightarrow> error + real list list" where
  "get_species_structure_embeddings self species_name =
     (case list_getitem (total_gene_names self) species_name of
        Inl e \<Rightarrow> Inl e
      | Inr species_genes \<Rightarrow>
          (case protein_cluster self of
             None \<Rightarrow> Inl AttributeError
           | Some pc \<Rightarrow> Inl TypeError))"

section \<open>Evaluator (\<open>evaluate\<close>, lines 155 to 161)\<close>

text \<open>
  The method calls the two library scores on \<open>self.simi_matrix\<close> and \<open>self.labels\<close>
  and prints them. It has no \<open>return\<close>: the pair in the model is what a run that does
  not raise prints, the silhouette score first, and the Python value returned is \<open>None\<close>.
\<close>

definition evaluate :: "sklearn \<Rightarrow> pse \<Rightarrow> error + real \<times> real" where
  "evaluate lib self =
     (case silhouette_score lib (simi_matrix self) (labels self) of
        Inl e \<Rightarrow> Inl e
      | Inr sil_score \<Rightarrow>
          (case davies_bouldin_score lib (simi_matrix self) (labels self) of
             Inl e \<Rightarrow> Inl e
           | Inr db_index \<Rightarrow> Inr (sil_score, db_index)))"

section \<open>Notions and inputs used in the statements\<close>

text \<open>The chain pairs of the rows, as lines 93 to 98 leave them.\<close>

definition pairs :: "arow list \<Rightarrow> (string \<times> string) list" where
  "pairs rows = map (\<lambda>r. (PDBchain1 r, split_first CHR ''.'' (PDBchain2 r))) rows"

text \<open>The score the rows hold for a pair in its own direction; NaN when they hold none.\<close>

definition recorded :: "arow list \<Rightarrow> string \<times> string \<Rightarrow> real option" where
  "recorded rows k =
     (case map_of (map (\<lambda>r. ((PDBchain1 r, split_first CHR ''.'' (PDBchain2 r)), small_TM r)) rows) k of
        None \<Rightarrow> None | Some v \<Rightarrow> v)"

text \<open>The frame of line 101, written with \<open>pairs\<close> and \<open>recorded\<close>.\<close>

definition pivoted :: "arow list \<Rightarrow> frame" where
  "pivoted rows =
     \<lparr>index = sort (remdups (map fst (pairs rows))),
      columns = sort (remdups (map snd (pairs rows))),
      vals = recorded rows\<rparr>"

text \<open>A frame as its two label lists and its array.\<close>

definition labelled_array :: "frame \<Rightarrow> string list \<times> string list \<times> real option list list" where
  "labelled_array M = (index M, columns M, to_numpy M)"

text \<open>Three alignment files, and a disk that holds one of them as \<open>alignment.txt\<close>.\<close>

definition scenario_rows :: "arow list" where
  "scenario_rows =
     [\<lparr>PDBchain1 = ''A'', PDBchain2 = ''B'', TM1 = Some 0.8, TM2 = Some 0.9\<rparr>,
      \<lparr>PDBchain1 = ''B'', PDBchain2 = ''C'', TM1 = Some 0.5, TM2 = Some 0.4\<rparr>]"

definition both_directions_rows :: "arow list" where
  "both_directions_rows =
     [\<lparr>PDBchain1 = ''A'', PDBchain2 = ''B'', TM1 = Some 0.8, TM2 = Some 0.9\<rparr>,
      \<lparr>PDBchain1 = ''B'', PDBchain2 = ''A'', TM1 = Some 0.5, TM2 = Some 0.6\<rparr>]"

definition self_pair_rows :: "arow list" where
  "self_pair_rows =
     [\<lparr>PDBchain1 = ''A'', PDBchain2 = ''A'', TM1 = Some 0.5, TM2 = Some 0.5\<rparr>]"

definition disk :: "arow list \<Rightarrow> files" where
  "disk rows = \<lparr>mapping_files = Map.empty, alignment_files = [''alignment.txt'' \<mapsto> rows]\<rparr>"

text \<open>A mapping file for the species \<open>zebrafish\<close> in the directory \<open>maps\<close>.\<close>

definition zebrafish_table :: table where
  "zebrafish_table =
     [(''pid'', [''1ABC'', ''2DEF'', ''3GhI'']),
      (''symbol'', [''abc x'', ''abc y'', '' def''])]"

definition mapping_disk :: files where
  "mapping_disk =
     \<lparr>mapping_files = [''maps/zebrafish_pid_protein_name.csv'' \<mapsto> zebrafish_table],
      alignment_files = Map.empty\<rparr>"

text \<open>A column of the table that \<open>read_mapping\<close> returns.\<close>

definition out_column :: "string \<Rightarrow> error + table \<times> pse \<Rightarrow> error + string list" where
  "out_column name res = (case res of Inl e \<Rightarrow> Inl e | Inr (out, self') \<Rightarrow> getitem out name)"

text \<open>
  Three species with one gene each. \<open>one_gene_loader\<close> is a value the global name
  \<open>read_mapping\<close> could be bound to: a loader of a table with a single gene.
\<close>

definition one_gene_loader :: "string option \<Rightarrow> string \<Rightarrow> error + table" where
  "one_gene_loader dir species = Inr [(''gene_name'', [''g_'' @ species])]"

definition three_species :: pse where
  "three_species = init [''b'', ''c'', ''a''] ''alignment.txt'' (Some ''maps'')"

text \<open>The result of \<open>get_species_gene_index\<close>, with the ranges of the given species.\<close>

definition index_ranges ::
  "(error + string list \<times> (string \<rightharpoonup> nat \<times> nat)) \<times> pse \<Rightarrow> string list
     \<Rightarrow> error + string list \<times> (nat \<times> nat) option list" where
  "index_ranges res species =
     (case fst res of Inl e \<Rightarrow> Inl e | Inr (genes, ranges) \<Rightarrow> Inr (genes, map ranges species))"

text \<open>
  A stand-in for the library, for the concrete evaluations. Its two scores make the check
  that scikit-learn's \<open>silhouette_score\<close> and \<open>davies_bouldin_score\<close> make on the number
  of distinct labels (ValueError unless it is more than 1 and less than the number of
  samples); the numbers it returns are of no concern. Its fit returns one label per row.
\<close>

definition check_number_of_labels :: "int list \<Rightarrow> error + unit" where
  "check_number_of_labels ls =
     (if 1 < length (remdups ls) \<and> length (remdups ls) < length ls then Inr ()
      else Inl ValueError)"

definition sample_sklearn :: sklearn where
  "sample_sklearn =
     \<lparr>SpectralClustering_fit =
        (\<lambda>k X. Inr \<lparr>fit_labels = map (\<lambda>i. int i mod k) [0..<length X],
                     fit_affinity_matrix = map (map (\<lambda>v. case v of None \<Rightarrow> 0 | Some x \<Rightarrow> x)) X,
                     n_clusters = k, eigen_solver = None, eigen_tol = None\<rparr>),
      spectral_embedding = (\<lambda>A k solver tol drop_first. Inr (map (\<lambda>row. replicate (nat k) 0) A)),
      silhouette_score =
        (\<lambda>X ls. case ls of
                   None \<Rightarrow> Inl ValueError
                 | Some l \<Rightarrow> (case check_number_of_labels l of Inl e \<Rightarrow> Inl e | Inr u \<Rightarrow> Inr 0)),
      davies_bouldin_score =
        (\<lambda>X ls. case ls of
                   None \<Rightarrow> Inl ValueError
                 | Some l \<Rightarrow> (case check_number_of_labels l of Inl e \<Rightarrow> Inl e | Inr u \<Rightarrow> Inr 0))\<rparr>"

text \<open>An object that holds a matrix over two proteins, and the same with one label twice.\<close>

definition two_proteins :: frame where
  "two_proteins =
     \<lparr>index = [''A'', ''B''], columns = [''A'', ''B''],
      vals = [(''A'', ''A'') \<mapsto> 1, (''A'', ''B'') \<mapsto> 0.8, (''B'', ''A'') \<mapsto> 0.8,
              (''B'', ''B'') \<mapsto> 1]\<rparr>"

definition clustered :: pse where
  "clustered = (init [] ''alignment.txt'' None)\<lparr>simi_matrix := Some two_proteins\<rparr>"

definition one_label :: pse where
  "one_label = clustered\<lparr>labels := Some [0, 0]\<rparr>"

section \<open>The matrix that lines 93 to 104 build\<close>

lemma alignment_table_Inr:
  "alignment_table rows = Inr df \<Longrightarrow>
     rows \<noteq> [] \<and>
     df = map (\<lambda>r. (PDBchain1 r, split_first CHR ''.'' (PDBchain2 r), small_TM r)) rows"
  by (auto simp: alignment_table_def split: if_splits)

lemma pivot_rows:
  assumes "pivot (map (\<lambda>r. (PDBchain1 r, split_first CHR ''.'' (PDBchain2 r), small_TM r)) rows)
             = Inr P"
  shows "distinct (pairs rows) \<and> P = pivoted rows"
proof -
  let ?df = "map (\<lambda>r. (PDBchain1 r, split_first CHR ''.'' (PDBchain2 r), small_TM r)) rows"
  have k: "map (\<lambda>(i, c, v). (i, c)) ?df = pairs rows"
    by (simp add: pairs_def comp_def)
  have i: "map (\<lambda>(i, c, v). i) ?df = map fst (pairs rows)"
    by (simp add: pairs_def comp_def)
  have c: "map (\<lambda>(i, c, v). c) ?df = map snd (pairs rows)"
    by (simp add: pairs_def comp_def)
  have v: "(\<lambda>k. case map_of (map (\<lambda>(i, c, v). ((i, c), v)) ?df) k of
                   None \<Rightarrow> None | Some v \<Rightarrow> v) = recorded rows"
    by (simp add: recorded_def comp_def fun_eq_iff)
  from assms have "distinct (pairs rows)"
    unfolding pivot_def k by (simp split: if_splits)
  moreover from assms have "P = pivoted rows"
    unfolding pivot_def k i c v pivoted_def by (simp split: if_splits)
  ultimately show ?thesis by simp
qed

lemma build_simi_matrix_Inr:
  assumes "build_simi_matrix rows = Inr M"
  shows "rows \<noteq> [] \<and> distinct (pairs rows) \<and>
         M = fillna (combine_first (pivoted rows) (T (pivoted rows))) 1"
proof -
  from assms obtain df P where df: "alignment_table rows = Inr df" and P: "pivot df = Inr P"
    and M: "M = fillna (combine_first P (T P)) 1"
    by (auto simp: build_simi_matrix_def split: sum.splits)
  from df P M show ?thesis
    using alignment_table_Inr [OF df] pivot_rows [of rows P] by simp
qed

text \<open>The matrix is square over the chains of both columns, sorted and without repeats.\<close>

lemma build_simi_matrix_index:
  assumes "build_simi_matrix rows = Inr M"
  shows "set (index M) = fst ` set (pairs rows) \<union> snd ` set (pairs rows)"
    and "set (columns M) = set (index M)"
    and "distinct (index M)" and "sorted (index M)"
  using build_simi_matrix_Inr [OF assms]
  by (auto simp: fillna_def combine_first_def T_def pivoted_def)

text \<open>
  Each cell holds the score recorded for its pair in its own direction, else the score
  recorded for the opposite direction, else 1.
\<close>

lemma build_simi_matrix_vals:
  assumes "build_simi_matrix rows = Inr M"
  shows "vals M (i, j) =
           (if i \<in> set (index M) \<and> j \<in> set (index M)
            then Some (case recorded rows (i, j) of
                         Some v \<Rightarrow> v
                       | None \<Rightarrow> (case recorded rows (j, i) of Some v \<Rightarrow> v | None \<Rightarrow> 1))
            else None)"
proof -
  have c: "set (columns M) = set (index M)"
    using assms by (rule build_simi_matrix_index)
  have "M = fillna (combine_first (pivoted rows) (T (pivoted rows))) 1"
    using build_simi_matrix_Inr [OF assms] by simp
  then have "vals M (i, j) =
           (if i \<in> set (index M) \<and> j \<in> set (columns M)
            then Some (case recorded rows (i, j) of
                         Some v \<Rightarrow> v
                       | None \<Rightarrow> (case recorded rows (j, i) of Some v \<Rightarrow> v | None \<Rightarrow> 1))
            else None)"
    by (simp add: fillna_def combine_first_def T_def pivoted_def split: option.splits)
  then show ?thesis by (simp add: c)
qed

lemma recorded_None: "k \<notin> set (pairs rows) \<Longrightarrow> recorded rows k = None"
  by (auto simp: recorded_def pairs_def map_of_eq_None_iff image_iff
      split: option.splits dest!: map_of_SomeD)

lemma recorded_row:
  assumes "distinct (pairs rows)" and "r \<in> set rows"
  shows "recorded rows (PDBchain1 r, split_first CHR ''.'' (PDBchain2 r)) = small_TM r"
proof -
  let ?al = "map (\<lambda>r. ((PDBchain1 r, split_first CHR ''.'' (PDBchain2 r)), small_TM r)) rows"
  have "map fst ?al = pairs rows"
    by (simp add: pairs_def comp_def)
  with assms(1) have "distinct (map fst ?al)" by simp
  moreover from assms(2)
  have "((PDBchain1 r, split_first CHR ''.'' (PDBchain2 r)), small_TM r) \<in> set ?al"
    by auto
  ultimately have "map_of ?al (PDBchain1 r, split_first CHR ''.'' (PDBchain2 r)) = Some (small_TM r)"
    by (rule map_of_is_SomeI)
  then show ?thesis by (simp add: recorded_def)
qed

text \<open>
  The matrix is symmetric when no two different chains are paired in both directions:
  \<open>combine_first\<close> fills the cells that are NaN and leaves every other cell as it is.
\<close>

lemma build_simi_matrix_symmetric:
  assumes "build_simi_matrix rows = Inr M"
    and "\<And>i j. (i, j) \<in> set (pairs rows) \<Longrightarrow> (j, i) \<in> set (pairs rows) \<Longrightarrow> i = j"
  shows "vals M (i, j) = vals M (j, i)"
proof (cases "i = j")
  case True
  then show ?thesis by simp
next
  case False
  with assms(2) have "(i, j) \<notin> set (pairs rows) \<or> (j, i) \<notin> set (pairs rows)" by blast
  then have "recorded rows (i, j) = None \<or> recorded rows (j, i) = None"
    by (auto simp: recorded_None)
  then show ?thesis
    by (auto simp: build_simi_matrix_vals [OF assms(1)] split: option.splits)
qed

lemmas build_eval =
  build_simi_matrix_def alignment_table_def pivot_def split_first_def small_TM_def
  fillna_def combine_first_def T_def to_numpy_def labelled_array_def

lemma build_scenario:
  "map_sum id labelled_array (build_simi_matrix scenario_rows) =
     Inr ([''A'', ''B'', ''C''], [''A'', ''B'', ''C''],
          [[Some 1, Some 0.8, Some 1], [Some 0.8, Some 1, Some 0.4], [Some 1, Some 0.4, Some 1]])"
  by (simp add: scenario_rows_def build_eval)

section \<open>The method \<open>get_simi_matrix\<close>\<close>

text \<open>Whatever the module namespace binds, line 109 raises: the method never returns.\<close>

lemma get_simi_matrix_Inl: "\<exists>e. get_simi_matrix G fs self = Inl e"
  by (simp add: get_simi_matrix_def relabel_test_def split: option.splits sum.splits)

lemma get_simi_matrix_module_globals:
  assumes "alignment_files fs (alignment_fn self) = Some rows"
    and "build_simi_matrix rows = Inr M"
  shows "get_simi_matrix module_globals fs self = Inl NameError"
  using assms
  by (simp add: get_simi_matrix_def relabel_test_def load_global_def module_globals_def)

text \<open>
  Claim C1. The claim is that the matrix of \<open>get_simi_matrix\<close> is symmetric for every
  alignment file, also when the file reports a pair in both directions. On the file with
  the rows (A, B, 0.8, 0.9) and (B, A, 0.5, 0.6) the matrix that lines 93 to 104 build has
  0.8 at (A, B) and 0.5 at (B, A), and the method then raises NameError at line 109.
\<close>

theorem simi_matrix_both_directions_asymmetric:
  "map_sum id labelled_array (build_simi_matrix both_directions_rows) =
     Inr ([''A'', ''B''], [''A'', ''B''], [[Some 1, Some 0.8], [Some 0.5, Some 1]])
   \<and> get_simi_matrix module_globals (disk both_directions_rows) (init [] ''alignment.txt'' None)
       = Inl NameError"
  by (simp add: both_directions_rows_def build_eval get_simi_matrix_def relabel_test_def
      load_global_def module_globals_def disk_def init_def)

text \<open>
  Claim C3. The scenario of the two rows (A, B, 0.8, 0.9) and (B, C, 0.5, 0.4): lines 93 to
  104 build the 3 by 3 matrix over A, B, C with 0.8 for A and B, 0.4 for B and C, and 1
  for A and C and on the diagonal; the method does not return it, since line 109 raises
  NameError.
\<close>

theorem simi_matrix_scenario:
  "map_sum id labelled_array (build_simi_matrix scenario_rows) =
     Inr ([''A'', ''B'', ''C''], [''A'', ''B'', ''C''],
          [[Some 1, Some 0.8, Some 1], [Some 0.8, Some 1, Some 0.4], [Some 1, Some 0.4, Some 1]])
   \<and> get_simi_matrix module_globals (disk scenario_rows) (init [] ''alignment.txt'' None)
       = Inl NameError"
  by (simp add: scenario_rows_def build_eval get_simi_matrix_def relabel_test_def
      load_global_def module_globals_def disk_def init_def)

text \<open>
  Claim C4. For every row whose two TM-scores are numbers, the similarity that line 97
  records for the row is the smaller of the two, and when lines 93 to 104 complete, the
  matrix holds that value in the cell of the row's chain pair.
\<close>

theorem row_similarity_is_minimum:
  assumes "i < length rows" and "TM1 (rows ! i) = Some a" and "TM2 (rows ! i) = Some b"
  shows "(\<exists>df. alignment_table rows = Inr df \<and>
               df ! i = (PDBchain1 (rows ! i), split_first CHR ''.'' (PDBchain2 (rows ! i)),
                         Some (min a b)))
         \<and> (\<forall>M. build_simi_matrix rows = Inr M \<longrightarrow>
                  vals M (PDBchain1 (rows ! i), split_first CHR ''.'' (PDBchain2 (rows ! i)))
                    = Some (min a b))"
proof -
  let ?r = "rows ! i"
  let ?k = "(PDBchain1 ?r, split_first CHR ''.'' (PDBchain2 ?r))"
  have s: "small_TM ?r = Some (min a b)"
    using assms(2,3) by (simp add: small_TM_def)
  from assms(1) have ne: "rows \<noteq> []" by auto
  have a: "\<exists>df. alignment_table rows = Inr df \<and> df ! i = (fst ?k, snd ?k, Some (min a b))"
    using assms(1) ne s by (simp add: alignment_table_def)
  have b: "vals M ?k = Some (min a b)" if M: "build_simi_matrix rows = Inr M" for M
  proof -
    from assms(1) have r: "?r \<in> set rows" by simp
    have d: "distinct (pairs rows)"
      using build_simi_matrix_Inr [OF M] by simp
    have rec: "recorded rows ?k = Some (min a b)"
      using recorded_row [OF d r] s by simp
    have "?k \<in> set (pairs rows)"
      using r by (auto simp: pairs_def)
    then have "fst ?k \<in> set (index M)" and "snd ?k \<in> set (index M)"
      unfolding build_simi_matrix_index(1) [OF M] by (force simp: image_iff)+
    then show ?thesis
      using rec by (simp add: build_simi_matrix_vals [OF M])
  qed
  from a b show ?thesis by simp
qed

theorem row_similarity_is_minimum_witness:
  "(0::nat) < length scenario_rows \<and> TM1 (scenario_rows ! 0) = Some 0.8
   \<and> TM2 (scenario_rows ! 0) = Some 0.9
   \<and> (\<exists>df. alignment_table scenario_rows = Inr df \<and> df ! 0 = (''A'', ''B'', Some 0.8))
   \<and> (\<exists>M. build_simi_matrix scenario_rows = Inr M \<and> vals M (''A'', ''B'') = Some 0.8)"
proof -
  have h: "(0::nat) < length scenario_rows" "TM1 (scenario_rows ! 0) = Some 0.8"
    "TM2 (scenario_rows ! 0) = Some 0.9"
    by (simp_all add: scenario_rows_def)
  obtain M where M: "build_simi_matrix scenario_rows = Inr M"
    using build_scenario by (cases "build_simi_matrix scenario_rows") auto
  from row_similarity_is_minimum [OF h] M h show ?thesis
    by (simp add: scenario_rows_def split_first_def)
qed

text \<open>
  Claim C5, as the code has it. When lines 93 to 104 complete, every cell of the matrix
  whose chain pair is in no row, in either direction, is 1. A diagonal cell is such a cell
  only when no row pairs the chain with itself.
\<close>

theorem unobserved_entries_are_one:
  assumes "build_simi_matrix rows = Inr M"
    and "i \<in> set (index M)" and "j \<in> set (columns M)"
    and "(i, j) \<notin> set (pairs rows)" and "(j, i) \<notin> set (pairs rows)"
  shows "vals M (i, j) = Some 1"
  using assms(2-5) build_simi_matrix_index(2) [OF assms(1)]
  by (simp add: build_simi_matrix_vals [OF assms(1)] recorded_None)

theorem unobserved_entries_are_one_witness:
  "\<exists>M. build_simi_matrix scenario_rows = Inr M
     \<and> ''A'' \<in> set (index M) \<and> ''C'' \<in> set (columns M)
     \<and> (''A'', ''C'') \<notin> set (pairs scenario_rows) \<and> (''C'', ''A'') \<notin> set (pairs scenario_rows)
     \<and> vals M (''A'', ''C'') = Some 1"
proof -
  obtain M where M: "build_simi_matrix scenario_rows = Inr M"
    using build_scenario by (cases "build_simi_matrix scenario_rows") auto
  with build_scenario have l: "index M = [''A'', ''B'', ''C'']" "columns M = [''A'', ''B'', ''C'']"
    by (simp_all add: labelled_array_def)
  have p: "(''A'', ''C'') \<notin> set (pairs scenario_rows)" "(''C'', ''A'') \<notin> set (pairs scenario_rows)"
    by (simp_all add: pairs_def scenario_rows_def split_first_def)
  have "vals M (''A'', ''C'') = Some 1"
    using unobserved_entries_are_one [OF M _ _ p] l by simp
  with M l p show ?thesis by simp
qed

text \<open>
  The claim C5 as stated counts every diagonal entry among the entries that are 1. On the
  file with the one row (A, A, 0.5, 0.5) the matrix is the single cell 0.5.
\<close>

theorem diagonal_self_pair_counterexample:
  "map_sum id labelled_array (build_simi_matrix self_pair_rows) = Inr ([''A''], [''A''], [[Some 0.5]])
   \<and> map_sum id (\<lambda>M. vals M (''A'', ''A'')) (build_simi_matrix self_pair_rows) \<noteq> Inr (Some 1)"
  by (simp add: self_pair_rows_def build_eval)

text \<open>
  Claim C10. Whenever control reaches the relabeling step, that is, the file is read and
  lines 93 to 104 complete, the method raises NameError in the module as written, where
  \<open>species_name\<close> and \<open>mapping\<close> are unbound; and under no binding of the module's names
  does the method return a matrix.
\<close>

theorem get_simi_matrix_NameError:
  assumes "alignment_files fs (alignment_fn self) = Some rows"
    and "build_simi_matrix rows = Inr M"
  shows "get_simi_matrix module_globals fs self = Inl NameError
         \<and> (\<forall>G r. get_simi_matrix G fs self \<noteq> Inr r)"
  using get_simi_matrix_module_globals [OF assms] get_simi_matrix_Inl [of _ fs self]
  by (metis Inl_Inr_False)

theorem get_simi_matrix_NameError_witness:
  "alignment_files (disk scenario_rows) (alignment_fn (init [] ''alignment.txt'' None))
     = Some scenario_rows
   \<and> (\<exists>M. build_simi_matrix scenario_rows = Inr M)
   \<and> get_simi_matrix module_globals (disk scenario_rows) (init [] ''alignment.txt'' None)
       = Inl NameError"
proof -
  have f: "alignment_files (disk scenario_rows) (alignment_fn (init [] ''alignment.txt'' None))
             = Some scenario_rows"
    by (simp add: disk_def init_def)
  obtain M where M: "build_simi_matrix scenario_rows = Inr M"
    using build_scenario by (cases "build_simi_matrix scenario_rows") auto
  from get_simi_matrix_NameError [OF f M] f M show ?thesis by blast
qed

section \<open>The method \<open>read_mapping\<close>\<close>

lemma map_of_setitem: "map_of (setitem df name col) = (map_of df)(name \<mapsto> col)"
  by (induction df name col rule: setitem.induct) (auto simp: fun_eq_iff)

lemma getitem_setitem:
  "getitem (setitem df name col) name' = (if name' = name then Inr col else getitem df name')"
  by (simp add: getitem_def map_of_setitem)

text \<open>Appending one suffix to all names keeps them apart exactly when they were.\<close>

lemma distinct_suffix: "distinct (map (\<lambda>g. g @ sfx) gs) = distinct gs"
  by (simp add: distinct_map inj_on_def)

lemma of_char_lower_char:
  "of_char (lower_char c) =
     (if CHR ''A'' \<le> c \<and> c \<le> CHR ''Z'' then of_char c + 32 else (of_char c :: nat))"
proof -
  have "of_char c + 32 < (256::nat)" if "c \<le> CHR ''Z''"
    using that by (simp add: less_eq_char_def)
  then show ?thesis
    by (simp add: lower_char_def of_char_of)
qed

text \<open>No letter from A to Z is left in a lowercased string.\<close>

lemma lower_no_upper:
  assumes "c \<in> set (lower s)"
  shows "\<not> (CHR ''A'' \<le> c \<and> c \<le> CHR ''Z'')"
proof -
  from assms obtain d where c: "c = lower_char d"
    by (auto simp: lower_def)
  show ?thesis
    unfolding c less_eq_char_def of_char_lower_char
    by (auto simp: less_eq_char_def)
qed

text \<open>
  Claim C7, as the code has it. For a mapping file with the columns \<open>symbol\<close> and
  \<open>pid\<close> and at least one row, \<open>read_mapping\<close> for the species \<open>s\<close> returns and caches a
  table in which every symbol is \<open>gene_name_s\<close>, where \<open>gene_name\<close> is the part of the
  input symbol before its first space character (all of it when it has no space); every
  pid is the input pid in lower case; and the symbols are pairwise distinct exactly when
  the gene names are.
\<close>

theorem read_mapping_symbols:
  assumes "map_dir self = Some dir"
    and "mapping_files fs (path_join dir (species @ ''_pid_protein_name.csv'')) = Some mapping"
    and "getitem mapping ''symbol'' = Inr symbol" and "symbol \<noteq> []"
    and "getitem mapping ''pid'' = Inr pid"
  shows "\<exists>out self'. read_mapping fs self species = Inr (out, self')
           \<and> pid_mappings self' species = Some out
           \<and> getitem out ''gene_name'' = Inr (map (split_first CHR '' '') symbol)
           \<and> getitem out ''symbol''
               = Inr (map (\<lambda>x. split_first CHR '' '' x @ ''_'' @ species) symbol)
           \<and> getitem out ''pid'' = Inr (map lower pid)
           \<and> (\<forall>p \<in> set (map lower pid). \<forall>c \<in> set p. \<not> (CHR ''A'' \<le> c \<and> c \<le> CHR ''Z''))
           \<and> (distinct (map (\<lambda>x. split_first CHR '' '' x @ ''_'' @ species) symbol)
                = distinct (map (split_first CHR '' '') symbol))"
proof -
  have d: "distinct (map (\<lambda>x. split_first CHR '' '' x @ ''_'' @ species) symbol)
             = distinct (map (split_first CHR '' '') symbol)"
    using distinct_suffix [of "''_'' @ species" "map (split_first CHR '' '') symbol"]
    by (simp add: comp_def)
  have l: "\<forall>p \<in> set (map lower pid). \<forall>c \<in> set p. \<not> (CHR ''A'' \<le> c \<and> c \<le> CHR ''Z'')"
    using lower_no_upper by auto
  have r: "\<exists>out self'. read_mapping fs self species = Inr (out, self')
           \<and> pid_mappings self' species = Some out
           \<and> getitem out ''gene_name'' = Inr (map (split_first CHR '' '') symbol)
           \<and> getitem out ''symbol''
               = Inr (map (\<lambda>x. split_first CHR '' '' x @ ''_'' @ species) symbol)
           \<and> getitem out ''pid'' = Inr (map lower pid)"
    using assms by (simp add: read_mapping_def Let_def getitem_setitem comp_def)
  from r l d show ?thesis by blast
qed

theorem read_mapping_symbols_witness:
  "map_dir (init [''zebrafish''] ''alignment.txt'' (Some ''maps'')) = Some ''maps''
   \<and> mapping_files mapping_disk (path_join ''maps'' (''zebrafish'' @ ''_pid_protein_name.csv''))
       = Some zebrafish_table
   \<and> getitem zebrafish_table ''symbol'' = Inr [''abc x'', ''abc y'', '' def'']
   \<and> getitem zebrafish_table ''pid'' = Inr [''1ABC'', ''2DEF'', ''3GhI'']
   \<and> out_column ''pid''
        (read_mapping mapping_disk (init [''zebrafish''] ''alignment.txt'' (Some ''maps''))
           ''zebrafish'')
       = Inr [''1abc'', ''2def'', ''3ghi'']"
proof -
  let ?self = "init [''zebrafish''] ''alignment.txt'' (Some ''maps'')"
  have h: "map_dir ?self = Some ''maps''"
    "mapping_files mapping_disk (path_join ''maps'' (''zebrafish'' @ ''_pid_protein_name.csv''))
       = Some zebrafish_table"
    "getitem zebrafish_table ''symbol'' = Inr [''abc x'', ''abc y'', '' def'']"
    "[''abc x'', ''abc y'', '' def''] \<noteq> []"
    "getitem zebrafish_table ''pid'' = Inr [''1ABC'', ''2DEF'', ''3GhI'']"
    by (simp_all add: init_def mapping_disk_def path_join_def zebrafish_table_def getitem_def)
  have l: "map lower [''1ABC'', ''2DEF'', ''3GhI''] = [''1abc'', ''2def'', ''3ghi'']"
    by code_simp
  from read_mapping_symbols [OF h] l h show ?thesis
    by (auto simp: out_column_def)
qed

text \<open>
  The claim C7 as stated has the first whitespace-delimited token as gene name and the
  output symbols unique. On the table with the symbols \<open>abc x\<close>, \<open>abc y\<close> and
  \<open>def\<close> after a leading space, two output symbols are equal, and the third has an empty
  gene name where the first token is \<open>def\<close>.
\<close>

theorem read_mapping_symbols_counterexample:
  "out_column ''symbol''
     (read_mapping mapping_disk (init [''zebrafish''] ''alignment.txt'' (Some ''maps''))
        ''zebrafish'')
     = Inr [''abc_zebrafish'', ''abc_zebrafish'', ''_zebrafish'']
   \<and> \<not> distinct [''abc_zebrafish'', ''abc_zebrafish'', ''_zebrafish'']"
  by (simp add: out_column_def read_mapping_def mapping_disk_def init_def path_join_def
      zebrafish_table_def getitem_def split_first_def Let_def)

section \<open>The method \<open>get_species_gene_index\<close>\<close>

text \<open>In the module as written the first iteration raises, and \<open>self\<close> is untouched.\<close>

lemma get_species_gene_index_unbound:
  assumes "species_order self \<noteq> []"
  shows "get_species_gene_index module_globals self = (Inl NameError, self)"
proof -
  from assms have "sort (species_order self) \<noteq> []"
    by (metis length_sort length_0_conv)
  then obtain s rest where "sort (species_order self) = s # rest"
    by (cases "sort (species_order self)") auto
  then show ?thesis
    by (simp add: get_species_gene_index_def load_global_def module_globals_def)
qed

text \<open>
  Claim C2. The claim is that the ranges partition the gene sequence without gaps. For the
  species a, b, c with one gene each, the method raises NameError at line 78 and records
  no range; and with the name \<open>read_mapping\<close> bound to a loader, line 82 doubles the
  offset, so that the ranges are (0, 1), (1, 2) and (3, 4) over a sequence of 3 genes.
\<close>

theorem gene_index_three_species:
  "get_species_gene_index module_globals three_species = (Inl NameError, three_species)
   \<and> index_ranges
        (get_species_gene_index (module_globals\<lparr>g_read_mapping := Some one_gene_loader\<rparr>)
           three_species)
        [''a'', ''b'', ''c'']
       = Inr ([''g_a'', ''g_b'', ''g_c''], [Some (0, 1), Some (1, 2), Some (3, 4)])"
  by (simp add: get_species_gene_index_def three_species_def init_def module_globals_def
      load_global_def one_gene_loader_def getattr_column_def index_ranges_def)

section \<open>The method \<open>clustering_embedding\<close>\<close>

text \<open>In the module as written the method raises on every input.\<close>

lemma clustering_embedding_Inl:
  "\<exists>e. fst (clustering_embedding module_globals lib self output_dir k) = Inl e"
  by (simp add: clustering_embedding_def Let_def load_global_def module_globals_def
      split: option.splits sum.splits)

text \<open>
  After a fit that returns one label per protein, the labels and the frame of symbols
  and labels are stored, and line 134 raises NameError before any embedding is computed.
\<close>

lemma clustering_embedding_after_fit:
  assumes "simi_matrix self = Some simi"
    and "SpectralClustering_fit lib k (to_numpy simi) = Inr c"
    and "length (fit_labels c) = length (index simi)"
  shows "clustering_embedding module_globals lib self output_dir k =
           (Inl NameError,
            self\<lparr>labels := Some (fit_labels c),
                 protein_cluster := Some (zip (index simi) (fit_labels c))\<rparr>)"
  using assms
  by (simp add: clustering_embedding_def Let_def load_global_def module_globals_def)

text \<open>
  Claim C6. The claim is about the embedding that a successful run returns. On a matrix
  over two proteins with 2 clusters, and a library whose fit and embedding succeed, the
  method raises NameError at line 134 and stores no embedding; in the module as written
  no run on any input returns.
\<close>

theorem clustering_embedding_raises_NameError:
  "fst (clustering_embedding module_globals sample_sklearn clustered ''out'' 2) = Inl NameError
   \<and> structure_embeddings
       (snd (clustering_embedding module_globals sample_sklearn clustered ''out'' 2)) = None
   \<and> (\<forall>lib self output_dir k.
         \<exists>e. fst (clustering_embedding module_globals lib self output_dir k) = Inl e)"
proof -
  have "fst (clustering_embedding module_globals sample_sklearn clustered ''out'' 2)
          = Inl NameError
        \<and> structure_embeddings
            (snd (clustering_embedding module_globals sample_sklearn clustered ''out'' 2)) = None"
    by (simp add: clustering_embedding_def Let_def load_global_def module_globals_def
        sample_sklearn_def clustered_def two_proteins_def init_def to_numpy_def)
  with clustering_embedding_Inl show ?thesis by blast
qed

section \<open>The method \<open>get_species_structure_embeddings\<close>\<close>

lemma get_species_structure_embeddings_Inl:
  "\<exists>e. get_species_structure_embeddings self key = Inl e"
  by (simp add: get_species_structure_embeddings_def split: sum.splits option.splits)

text \<open>
  Claim C8. The claim is that the method returns the rows of the species, or fails with
  UnknownSpeciesError. For every species name, with or without recorded genes, line 150
  subscripts a list with a string and the method raises TypeError.
\<close>

theorem species_slicer_raises_TypeError:
  "get_species_structure_embeddings self (StrKey species) = Inl TypeError"
  by (simp add: get_species_structure_embeddings_def list_getitem_def)

section \<open>The method \<open>evaluate\<close>\<close>

text \<open>The method fails exactly when one of its two library calls does, with that error.\<close>

lemma evaluate_Inl_iff:
  "evaluate lib self = Inl e \<longleftrightarrow>
     silhouette_score lib (simi_matrix self) (labels self) = Inl e
     \<or> (\<exists>s. silhouette_score lib (simi_matrix self) (labels self) = Inr s
            \<and> davies_bouldin_score lib (simi_matrix self) (labels self) = Inl e)"
  by (auto simp: evaluate_def split: sum.splits)

text \<open>
  Claim C9, as the code has it. The method makes no check of its own. With a silhouette
  routine that raises ValueError for fewer than 2 distinct labels, as that of
  scikit-learn does, the method fails with that ValueError for every matrix and every
  label assignment with fewer than 2 distinct labels.
\<close>

theorem evaluate_single_label_fails:
  assumes "\<And>X ls. card (set ls) < 2 \<Longrightarrow> silhouette_score lib X (Some ls) = Inl ValueError"
    and "labels self = Some ls" and "card (set ls) < 2"
  shows "evaluate lib self = Inl ValueError"
  using assms(1) [OF assms(3), of "simi_matrix self"] assms(2)
  by (simp add: evaluate_def)

theorem evaluate_single_label_fails_witness:
  "silhouette_score sample_sklearn (simi_matrix one_label) (Some [0, 0]) = Inl ValueError
   \<and> labels one_label = Some [0, 0] \<and> card (set [0, 0 :: int]) < 2
   \<and> evaluate sample_sklearn one_label = Inl ValueError"
proof -
  have c: "silhouette_score sample_sklearn X (Some ls) = Inl ValueError"
    if "card (set ls) < 2" for X ls
    using that by (simp add: sample_sklearn_def check_number_of_labels_def card_set)
  have l: "labels one_label = Some [0, 0]"
    by (simp add: one_label_def)
  have n: "card (set [0, 0 :: int]) < 2"
    by simp
  from evaluate_single_label_fails [of sample_sklearn one_label, OF c l n] c [OF n] l n
  show ?thesis by blast
qed

text \<open>
  The claim C9 as stated names InsufficientClustersError. On a matrix over two proteins
  with the one label 0 twice, the error is the ValueError of the library.
\<close>

theorem evaluate_single_label_counterexample:
  "evaluate sample_sklearn one_label = Inl ValueError"
  by (simp add: evaluate_def sample_sklearn_def one_label_def clustered_def init_def
      check_number_of_labels_def)

end
